theory Spec2Isabelle
  imports Main "HOL-Library.Word" "HOL-Library.Multiset"
begin

section \<open>RPC author module: key types (dot/rpc/modules/author.go)\<close>

text \<open>
  \<open>crypto.KeyType\<close> is a string type: \<open>determineKeyType\<close> returns the string literal
  \<open>"unknown keytype"\<close> as a \<open>crypto.KeyType\<close>. The constant \<open>crypto.Sr25519Type\<close> is
  declared in \<open>lib/crypto\<close>; it is the first argument of the model.
\<close>

type_synonym KeyType = string

text \<open>
  The \<open>switch t\<close> of the source: seven cases, tried in order, each returning
  \<open>crypto.Sr25519Type\<close>; the statement after the switch returns the sentinel.
\<close>

definition determineKeyType :: "KeyType \<Rightarrow> string \<Rightarrow> KeyType" where
  "determineKeyType Sr25519Type t =
     (if t = ''babe'' then Sr25519Type
      else if t = ''gran'' then Sr25519Type
      else if t = ''acco'' then Sr25519Type
      else if t = ''aura'' then Sr25519Type
      else if t = ''imon'' then Sr25519Type
      else if t = ''audi'' then Sr25519Type
      else if t = ''dumy'' then Sr25519Type
      else ''unknown keytype'')"

section \<open>Genesis: storage keys (package genesis)\<close>

text \<open>
  A Go \<open>string\<close> is a sequence of bytes, as an Isabelle \<open>string\<close> is; a \<open>[]byte\<close> is a
  list of 8-bit words. \<open>bytesOf s\<close> is the conversion \<open>[]byte(s)\<close>.
\<close>

type_synonym byte = "8 word"

definition bytesOf :: "string \<Rightarrow> byte list" where
  "bytesOf s = map of_char s"

text \<open>
  \<open>binary.LittleEndian.PutUint64(b, v)\<close> on a fresh 8-byte slice: byte \<open>i\<close> is
  \<open>byte(v >> (8 * i))\<close>.
\<close>

definition PutUint64 :: "64 word \<Rightarrow> byte list" where
  "PutUint64 v =
     [ucast v, ucast (drop_bit 8 v), ucast (drop_bit 16 v), ucast (drop_bit 24 v),
      ucast (drop_bit 32 v), ucast (drop_bit 40 v), ucast (drop_bit 48 v), ucast (drop_bit 56 v)]"

text \<open>
  \<open>strings.Trim(s, cutset)\<close>: \<open>s\<close> without its leading and trailing characters that occur
  in \<open>cutset\<close>. The model works on bytes, which is what Go does for a cutset of ASCII
  characters; \<open>formatKey\<close> calls it with the cutset \<open>" "\<close>.
\<close>

definition Trim :: "string \<Rightarrow> string \<Rightarrow> string" where
  "Trim s cutset =
     rev (dropWhile (\<lambda>c. c \<in> set cutset) (rev (dropWhile (\<lambda>c. c \<in> set cutset) s)))"

text \<open>
  \<open>twoxHash\<close> hashes the message twice with the xxhash library, seeds 0 and 1. The
  library is the argument \<open>Sum64\<close>: \<open>Sum64 seed msg\<close> is the digest that
  \<open>xxhash.NewS64(seed)\<close> returns from \<open>Sum64()\<close> after \<open>Write(msg)\<close>, and \<open>None\<close> when
  that \<open>Write\<close> returns an error. On an error \<open>twoxHash\<close> returns \<open>nil\<close>, the empty
  slice; otherwise the two digests, each as 8 little-endian bytes, first seed 0.
\<close>

definition twoxHash :: "(64 word \<Rightarrow> byte list \<Rightarrow> 64 word option) \<Rightarrow> byte list \<Rightarrow> byte list" where
  "twoxHash Sum64 msg =
     (case Sum64 0 msg of
        None \<Rightarrow> []
      | Some res0 \<Rightarrow>
          (case Sum64 1 msg of
             None \<Rightarrow> []
           | Some res1 \<Rightarrow> PutUint64 res0 @ PutUint64 res1))"

text \<open>
  \<open>formatKey\<close>: the \<open>switch true\<close> compares the key path with two literal paths by
  \<open>reflect.DeepEqual\<close> (equality of string slices), in order. The default branch runs the
  loop \<open>fKey = fKey + v + " "\<close> over the path, trims the result with the cutset \<open>" "\<close>,
  title-cases it and hashes its bytes. \<open>common.BytesToHex\<close> (in \<open>lib/common\<close>) and
  \<open>strings.Title\<close> are arguments of the model.
\<close>

definition formatKey ::
  "(byte list \<Rightarrow> string) \<Rightarrow> (string \<Rightarrow> string) \<Rightarrow> (64 word \<Rightarrow> byte list \<Rightarrow> 64 word option)
     \<Rightarrow> string list \<Rightarrow> string" where
  "formatKey BytesToHex Title Sum64 key =
     (if [''grandpa'', ''authorities''] = key then BytesToHex (bytesOf '':grandpa_authorities'')
      else if [''system'', ''code''] = key then BytesToHex (bytesOf '':code'')
      else
        let fKey = foldl (\<lambda>fKey v. fKey @ v @ '' '') [] key;
            fKey = Trim fKey '' '';
            fKey = Title fKey
        in BytesToHex (twoxHash Sum64 (bytesOf fKey)))"

text \<open>
  The path string as the specification words it: the elements joined by single spaces
  (\<open>strings.Join(key, " ")\<close>). It is compared with what \<open>formatKey\<close> builds.
\<close>

fun spaceJoined :: "string list \<Rightarrow> string" where
  "spaceJoined [] = []"
| "spaceJoined [v] = v"
| "spaceJoined (v # w # vs) = v @ '' '' @ spaceJoined (w # vs)"

text \<open>A string that neither begins nor ends with a space.\<close>

definition noEdgeSpace :: "string \<Rightarrow> bool" where
  "noEdgeSpace s = (s = [] \<or> (hd s \<noteq> CHR '' '' \<and> last s \<noteq> CHR '' ''))"

section \<open>Slot clock arithmetic (package babe)\<close>

text \<open>
  Modelled from the spec: the error kinds of the block-production engine (section 7 of
  the specification). The package's own error values are not among the sources; only
  the tests that call \<open>median\<close> and \<open>slotOffset\<close> are.
\<close>

datatype error = InvalidRange | EmptyHistory | SigningUnavailable | EncodingError | ThresholdUnset

text \<open>
  Modelled from the spec: \<open>median\<close>, whose body is not among the sources (the tests
  \<open>TestMedian_OddLength\<close> and \<open>TestMedian_EvenLength\<close> call it). The specification:
  it sorts the input; for odd length it returns the middle element; for even length the
  arithmetic mean of the two central elements, truncated to the integer type; it fails
  only on an empty input, the \<open>EmptyHistory\<close> error.
\<close>

definition median :: "64 word list \<Rightarrow> error + 64 word" where
  "median values =
     (let sorted_values = sort values; n = length sorted_values
      in if n = 0 then Inl EmptyHistory
         else if n mod 2 = 1 then Inr (sorted_values ! (n div 2))
         else Inr (of_nat ((unat (sorted_values ! (n div 2 - 1))
                            + unat (sorted_values ! (n div 2))) div 2)))"

text \<open>
  Modelled from the spec: \<open>slotOffset\<close>, whose body is not among the sources (the tests
  \<open>TestSlotOffset\<close> and \<open>TestSlotOffset_Failing\<close> call it). The specification: it
  returns \<open>end - start\<close> and fails with an \<open>InvalidRange\<close> error if \<open>start > end\<close>.
\<close>

definition slotOffset :: "64 word \<Rightarrow> 64 word \<Rightarrow> error + 64 word" where
  "slotOffset start end' = (if start > end' then Inl InvalidRange else Inr (end' - start))"

section \<open>Theorems\<close>

subsection \<open>determineKeyType\<close>

text \<open>
  Claim C9. \<open>determineKeyType\<close> is a total function into \<open>crypto.KeyType\<close> with no error
  result: on each of the seven identifiers \<open>babe\<close>, \<open>gran\<close>, \<open>acco\<close>, \<open>aura\<close>, \<open>imon\<close>,
  \<open>audi\<close> and \<open>dumy\<close> its value is \<open>crypto.Sr25519Type\<close>, and on every other string its
  value is the sentinel string \<open>unknown keytype\<close>.
\<close>

theorem determineKeyType_total:
  "determineKeyType Sr25519Type t =
     (if t \<in> {''babe'', ''gran'', ''acco'', ''aura'', ''imon'', ''audi'', ''dumy''}
      then Sr25519Type else ''unknown keytype'')"
  by (simp add: determineKeyType_def)

subsection \<open>formatKey\<close>

text \<open>The loop of the default branch appends every element followed by a space.\<close>

lemma foldl_append_space:
  "foldl (\<lambda>fKey v. fKey @ v @ '' '') acc key = acc @ concat (map (\<lambda>v. v @ '' '') key)"
  by (induction key arbitrary: acc) simp_all

lemma concat_space_spaceJoined:
  "key \<noteq> [] \<Longrightarrow> concat (map (\<lambda>v. v @ '' '') key) = spaceJoined key @ '' ''"
  by (induction key rule: spaceJoined.induct) simp_all

lemma Trim_snoc_space:
  assumes "noEdgeSpace s"
  shows "Trim (s @ '' '') '' '' = s"
proof (cases "s = []")
  case True
  then show ?thesis by (simp add: Trim_def)
next
  case False
  with assms have h: "hd s \<noteq> CHR '' ''" and l: "last s \<noteq> CHR '' ''"
    by (simp_all add: noEdgeSpace_def)
  from False h have "dropWhile (\<lambda>c. c \<in> set '' '') (s @ '' '') = s @ '' ''"
    by (cases s) simp_all
  moreover from False l have "dropWhile (\<lambda>c. c \<in> set '' '') (rev s) = rev s"
    by (cases s rule: rev_cases) simp_all
  ultimately show ?thesis by (simp add: Trim_def)
qed

lemma Trim_path_spaceJoined:
  assumes "noEdgeSpace (spaceJoined key)"
  shows "Trim (concat (map (\<lambda>v. v @ '' '') key)) '' '' = spaceJoined key"
proof (cases "key = []")
  case True
  then show ?thesis by (simp add: Trim_def)
next
  case False
  then show ?thesis using assms by (simp add: concat_space_spaceJoined Trim_snoc_space)
qed

lemma length_PutUint64: "length (PutUint64 v) = 8"
  by (simp add: PutUint64_def)

text \<open>
  Claim C10, as stated, at the key path \<open>["system", "code "]\<close> (the second element ends
  with a space). It is neither of the two literal paths, so the default branch runs: the
  loop builds \<open>"system code  "\<close> and the trim leaves \<open>"system code"\<close>, whatever the
  library functions are, while the space-joined path is \<open>"system code "\<close>. So the string
  that is title-cased and hashed is not the space-joined path, and the result is not the
  hex encoding of the digests of the title-cased space-joined path as soon as the
  title-casing, the hasher and the hex encoder tell the two strings apart.
\<close>

theorem formatKey_spaceJoined_counterexample:
  "(\<forall>BytesToHex Title Sum64.
      formatKey BytesToHex Title Sum64 [''system'', ''code '']
        = BytesToHex (twoxHash Sum64 (bytesOf (Title ''system code''))))
   \<and> spaceJoined [''system'', ''code ''] = ''system code ''
   \<and> \<not> (\<forall>BytesToHex Title Sum64 d0 d1.
         Sum64 0 (bytesOf (Title (spaceJoined [''system'', ''code '']))) = Some d0 \<and>
         Sum64 1 (bytesOf (Title (spaceJoined [''system'', ''code '']))) = Some d1
         \<longrightarrow> formatKey BytesToHex Title Sum64 [''system'', ''code '']
               = BytesToHex (PutUint64 d0 @ PutUint64 d1))"
proof (intro conjI notI allI)
  fix BytesToHex :: "byte list \<Rightarrow> string" and Title :: "string \<Rightarrow> string"
    and Sum64 :: "64 word \<Rightarrow> byte list \<Rightarrow> 64 word option"
  show "formatKey BytesToHex Title Sum64 [''system'', ''code '']
        = BytesToHex (twoxHash Sum64 (bytesOf (Title ''system code'')))"
    by (simp add: formatKey_def Trim_def)
next
  show "spaceJoined [''system'', ''code ''] = ''system code ''"
    by simp
next
  assume a: "\<forall>BytesToHex Title Sum64 d0 d1.
         Sum64 0 (bytesOf (Title (spaceJoined [''system'', ''code '']))) = Some d0 \<and>
         Sum64 1 (bytesOf (Title (spaceJoined [''system'', ''code '']))) = Some d1
         \<longrightarrow> formatKey BytesToHex Title Sum64 [''system'', ''code '']
               = BytesToHex (PutUint64 d0 @ PutUint64 d1)"
  have "formatKey (map (\<lambda>b. if b = 11 then CHR ''1'' else CHR ''0'')) (\<lambda>s. s)
           (\<lambda>seed msg. Some (of_nat (length msg))) [''system'', ''code '']
          = map (\<lambda>b. if b = 11 then CHR ''1'' else CHR ''0'') (PutUint64 12 @ PutUint64 12)"
    by (rule a [rule_format]) (simp add: bytesOf_def)
  then show False
    by (simp add: formatKey_def twoxHash_def Trim_def bytesOf_def PutUint64_def)
qed

text \<open>
  Claim C10, amended. \<open>formatKey\<close> maps the key path \<open>["grandpa", "authorities"]\<close> to the
  hex encoding of the bytes \<open>:grandpa_authorities\<close> and \<open>["system", "code"]\<close> to that of
  \<open>:code\<close>. Every other key path it maps to the hex encoding of the 16-byte concatenation
  of the little-endian xxHash64 digests, seeds 0 and 1 (both writes succeeding), of the
  title-cased string got by appending a space to every path element, concatenating, and
  trimming all leading and trailing spaces. That string is the space-joined path whenever
  the space-joined path neither begins nor ends with a space.
\<close>

theorem formatKey_cases:
  "formatKey BytesToHex Title Sum64 [''grandpa'', ''authorities'']
     = BytesToHex (bytesOf '':grandpa_authorities'')
   \<and> formatKey BytesToHex Title Sum64 [''system'', ''code''] = BytesToHex (bytesOf '':code'')
   \<and> (\<forall>key d0 d1.
         key \<noteq> [''grandpa'', ''authorities''] \<and> key \<noteq> [''system'', ''code''] \<and>
         Sum64 0 (bytesOf (Title (Trim (concat (map (\<lambda>v. v @ '' '') key)) '' ''))) = Some d0 \<and>
         Sum64 1 (bytesOf (Title (Trim (concat (map (\<lambda>v. v @ '' '') key)) '' ''))) = Some d1
         \<longrightarrow> formatKey BytesToHex Title Sum64 key = BytesToHex (PutUint64 d0 @ PutUint64 d1)
             \<and> length (PutUint64 d0 @ PutUint64 d1) = 16)
   \<and> (\<forall>key. noEdgeSpace (spaceJoined key)
         \<longrightarrow> Trim (concat (map (\<lambda>v. v @ '' '') key)) '' '' = spaceJoined key)"
proof (intro conjI allI impI)
  show "formatKey BytesToHex Title Sum64 [''grandpa'', ''authorities'']
     = BytesToHex (bytesOf '':grandpa_authorities'')"
    by (simp add: formatKey_def)
  show "formatKey BytesToHex Title Sum64 [''system'', ''code''] = BytesToHex (bytesOf '':code'')"
    by (simp add: formatKey_def)
next
  fix key d0 d1
  assume a: "key \<noteq> [''grandpa'', ''authorities''] \<and> key \<noteq> [''system'', ''code''] \<and>
         Sum64 0 (bytesOf (Title (Trim (concat (map (\<lambda>v. v @ '' '') key)) '' ''))) = Some d0 \<and>
         Sum64 1 (bytesOf (Title (Trim (concat (map (\<lambda>v. v @ '' '') key)) '' ''))) = Some d1"
  then have k: "[''grandpa'', ''authorities''] \<noteq> key" "[''system'', ''code''] \<noteq> key"
    by auto
  from a k show "formatKey BytesToHex Title Sum64 key = BytesToHex (PutUint64 d0 @ PutUint64 d1)"
    unfolding formatKey_def Let_def twoxHash_def foldl_append_space by simp
  show "length (PutUint64 d0 @ PutUint64 d1) = 16"
    by (simp add: length_PutUint64)
next
  fix key
  assume "noEdgeSpace (spaceJoined key)"
  then show "Trim (concat (map (\<lambda>v. v @ '' '') key)) '' '' = spaceJoined key"
    by (rule Trim_path_spaceJoined)
qed

text \<open>
  The default branch at the path \<open>["babe", "authorities"]\<close>, with a hasher that returns
  the seed plus the length of the message (16 bytes here) and a hex encoder that only
  tells the byte 1 from the others.
\<close>

theorem formatKey_cases_witness:
  "formatKey (map (\<lambda>b. if b = 1 then CHR ''1'' else CHR ''0'')) (\<lambda>s. s)
       (\<lambda>seed msg. Some (seed + of_nat (length msg))) [''babe'', ''authorities'']
     = map (\<lambda>b. if b = 1 then CHR ''1'' else CHR ''0'') (PutUint64 16 @ PutUint64 17)
   \<and> Trim (concat (map (\<lambda>v. v @ '' '') [''babe'', ''authorities''])) '' ''
       = spaceJoined [''babe'', ''authorities'']"
proof -
  note t = formatKey_cases [of "map (\<lambda>b. if b = 1 then CHR ''1'' else CHR ''0'')" "\<lambda>s. s"
      "\<lambda>seed msg. Some (seed + of_nat (length msg))"]
  have "formatKey (map (\<lambda>b. if b = 1 then CHR ''1'' else CHR ''0'')) (\<lambda>s. s)
       (\<lambda>seed msg. Some (seed + of_nat (length msg))) [''babe'', ''authorities'']
     = map (\<lambda>b. if b = 1 then CHR ''1'' else CHR ''0'') (PutUint64 16 @ PutUint64 17)"
    by (rule t [THEN conjunct2, THEN conjunct2, THEN conjunct1, rule_format, THEN conjunct1])
      (simp add: Trim_def bytesOf_def)
  moreover have "Trim (concat (map (\<lambda>v. v @ '' '') [''babe'', ''authorities''])) '' ''
       = spaceJoined [''babe'', ''authorities'']"
    by (rule t [THEN conjunct2, THEN conjunct2, THEN conjunct2, rule_format])
      (simp add: noEdgeSpace_def)
  ultimately show ?thesis by (rule conjI)
qed

subsection \<open>median\<close>

lemma sort_eq_Nil_iff: "sort v = [] \<longleftrightarrow> v = []"
  by (metis length_0_conv length_sort)

text \<open>The truncated mean of two 64-bit values fits in 64 bits.\<close>

lemma unat_mean:
  fixes a b :: "64 word"
  shows "unat (of_nat ((unat a + unat b) div 2) :: 64 word) = (unat a + unat b) div 2"
proof -
  have "unat a < 2 ^ 64" "unat b < 2 ^ 64"
    using unsigned_less [of a] unsigned_less [of b] by simp_all
  then have "(unat a + unat b) div 2 < 2 ^ 64" by linarith
  then show ?thesis by (simp add: unat_of_nat take_bit_nat_eq_self)
qed

text \<open>
  Claim C7. \<open>median\<close> fails exactly on the empty sequence. For a non-empty sequence \<open>v\<close>
  of unsigned 64-bit integers and its sorted arrangement \<open>s\<close> (any sorted sequence with
  the elements of \<open>v\<close>, each as often as in \<open>v\<close>), \<open>median v\<close> is the middle element of
  \<open>s\<close> when the length is odd, and the truncated arithmetic mean of the two central
  elements of \<open>s\<close> when it is even.
\<close>

theorem median_spec:
  "(isl (median v) \<longleftrightarrow> v = [])
   \<and> median [] = Inl EmptyHistory
   \<and> (\<forall>s. v \<noteq> [] \<and> sorted s \<and> mset s = mset v \<longrightarrow>
         (\<exists>m. median v = Inr m
            \<and> (odd (length v) \<longrightarrow> m = s ! (length v div 2))
            \<and> (even (length v) \<longrightarrow>
                 unat m = (unat (s ! (length v div 2 - 1)) + unat (s ! (length v div 2))) div 2)))"
proof (intro conjI allI impI)
  show "isl (median v) \<longleftrightarrow> v = []"
    by (cases "length v mod 2 = 1") (simp_all add: median_def Let_def sort_eq_Nil_iff)
  show "median [] = Inl EmptyHistory"
    by (simp add: median_def)
next
  fix s
  assume a: "v \<noteq> [] \<and> sorted s \<and> mset s = mset v"
  then have s: "sort v = s"
    by (simp add: properties_for_sort)
  from a have n: "length v \<noteq> 0" by simp
  from a have ls: "length s = length v" by (metis size_mset)
  with a have sne: "s \<noteq> []" by auto
  show "\<exists>m. median v = Inr m
            \<and> (odd (length v) \<longrightarrow> m = s ! (length v div 2))
            \<and> (even (length v) \<longrightarrow>
                 unat m = (unat (s ! (length v div 2 - 1)) + unat (s ! (length v div 2))) div 2)"
  proof (cases "odd (length v)")
    case True
    then have "length v mod 2 = 1" by (simp add: odd_iff_mod_2_eq_one)
    with n s ls sne True show ?thesis by (simp add: median_def Let_def)
  next
    case False
    then have "length v mod 2 \<noteq> 1" by (simp add: odd_iff_mod_2_eq_one)
    with n s ls sne False show ?thesis by (simp add: median_def Let_def unat_mean)
  qed
qed

text \<open>
  The inputs of \<open>TestMedian_OddLength\<close> and \<open>TestMedian_EvenLength\<close>, with the results
  the tests expect, and the empty input.
\<close>

theorem median_spec_witness:
  "median [] = Inl EmptyHistory
   \<and> median [3, 2, 1, 4, 5] = Inr 3
   \<and> (\<exists>m. median [1, 4, 2, 4, 5, 6] = Inr m \<and> unat m = 4)"
proof -
  have e: "median [] = Inl EmptyHistory"
    using median_spec [of "[]"] by simp
  have "\<exists>m. median [3, 2, 1, 4, 5] = Inr m
          \<and> (odd (length [3, 2, 1, 4, 5 :: 64 word]) \<longrightarrow>
               m = [1, 2, 3, 4, 5] ! (length [3, 2, 1, 4, 5 :: 64 word] div 2))
          \<and> (even (length [3, 2, 1, 4, 5 :: 64 word]) \<longrightarrow>
               unat m = (unat ([1, 2, 3, 4, 5 :: 64 word] ! (length [3, 2, 1, 4, 5 :: 64 word] div 2 - 1))
                         + unat ([1, 2, 3, 4, 5 :: 64 word] ! (length [3, 2, 1, 4, 5 :: 64 word] div 2))) div 2)"
    by (rule median_spec [THEN conjunct2, THEN conjunct2, rule_format])
      (simp add: word_le_nat_alt add_mset_commute)
  then have o: "median [3, 2, 1, 4, 5] = Inr 3" by auto
  have "\<exists>m. median [1, 4, 2, 4, 5, 6] = Inr m
          \<and> (odd (length [1, 4, 2, 4, 5, 6 :: 64 word]) \<longrightarrow>
               m = [1, 2, 4, 4, 5, 6] ! (length [1, 4, 2, 4, 5, 6 :: 64 word] div 2))
          \<and> (even (length [1, 4, 2, 4, 5, 6 :: 64 word]) \<longrightarrow>
               unat m = (unat ([1, 2, 4, 4, 5, 6 :: 64 word] ! (length [1, 4, 2, 4, 5, 6 :: 64 word] div 2 - 1))
                         + unat ([1, 2, 4, 4, 5, 6 :: 64 word] ! (length [1, 4, 2, 4, 5, 6 :: 64 word] div 2))) div 2)"
    by (rule median_spec [THEN conjunct2, THEN conjunct2, rule_format])
      (simp add: word_le_nat_alt add_mset_commute)
  then have v: "\<exists>m. median [1, 4, 2, 4, 5, 6] = Inr m \<and> unat m = 4" by auto
  from e o v show ?thesis by blast
qed

subsection \<open>slotOffset\<close>

text \<open>
  Claim C8. For unsigned 64-bit \<open>start\<close> and \<open>end\<close>, \<open>slotOffset start end\<close> fails with
  \<open>InvalidRange\<close> if and only if \<open>start > end\<close>; otherwise it returns \<open>end - start\<close>,
  which is then the difference of the two numbers, with no wrap-around.
\<close>

theorem slotOffset_spec:
  "(slotOffset start end' = Inl InvalidRange \<longleftrightarrow> start > end')
   \<and> (isl (slotOffset start end') \<longleftrightarrow> start > end')
   \<and> (\<not> start > end' \<longrightarrow>
        slotOffset start end' = Inr (end' - start)
        \<and> unat (end' - start) = unat end' - unat start)"
proof (intro conjI impI)
  show "slotOffset start end' = Inl InvalidRange \<longleftrightarrow> start > end'"
    by (simp add: slotOffset_def)
  show "isl (slotOffset start end') \<longleftrightarrow> start > end'"
    by (simp add: slotOffset_def)
next
  assume le: "\<not> start > end'"
  then show "slotOffset start end' = Inr (end' - start)"
    by (simp add: slotOffset_def)
  from le have "start \<le> end'" by simp
  then show "unat (end' - start) = unat end' - unat start"
    by (rule unat_sub)
qed

text \<open>The inputs of \<open>TestSlotOffset_Failing\<close> and \<open>TestSlotOffset\<close>.\<close>

theorem slotOffset_spec_witness:
  "slotOffset 1000001 1000000 = Inl InvalidRange
   \<and> slotOffset 1000000 1000001 = Inr 1
   \<and> unat (1000001 - 1000000 :: 64 word) = unat (1000001 :: 64 word) - unat (1000000 :: 64 word)"
proof -
  have lt: "(1000001 :: 64 word) > 1000000" by simp
  have nlt: "\<not> (1000000 :: 64 word) > 1000001" by simp
  from slotOffset_spec [of 1000001 1000000] lt
  have a: "slotOffset 1000001 1000000 = Inl InvalidRange" by blast
  from slotOffset_spec [of 1000000 1000001] nlt
  have b: "slotOffset 1000000 1000001 = Inr (1000001 - 1000000)"
    and c: "unat (1000001 - 1000000 :: 64 word) = unat (1000001 :: 64 word) - unat (1000000 :: 64 word)"
    by blast+
  from a b c show ?thesis by simp
qed

end
